theory Spec2Isabelle
  imports Complex_Main
begin

section \<open>Numbers and errors\<close>

text \<open>
  The Python sources compute with floating-point numbers (\<^verbatim>\<open>float\<close>, numpy
  \<^verbatim>\<open>float64\<close>). The embedding of the assembly computes with the real numbers instead:
  every arithmetic operation is exact, and a result that numpy would report as \<^verbatim>\<open>nan\<close>
  or \<^verbatim>\<open>inf\<close> after a division by zero is the value \<open>None\<close> of an option type.
  Rounding and overflow are outside that model. The two functions of the frustum geometry
  are given twice: with exact arithmetic, and with every operation rounded to
  \<^verbatim>\<open>float64\<close> as the program computes it.
\<close>

datatype py_error = IndexError | ZeroDivisionError | ValueError | TypeError | KeyError | ConciveError

section \<open>Frustum geometry (misc.py), in exact arithmetic\<close>

text \<open>The inner helper \<^verbatim>\<open>volume(r1, r2, h)\<close> of \<^verbatim>\<open>center_of_mass_hollow_frustum\<close>.\<close>

definition volume :: "real \<Rightarrow> real \<Rightarrow> real \<Rightarrow> real" where
  "volume r1 r2 h = (pi * h / 3) * (r1\<^sup>2 + r1 * r2 + r2\<^sup>2)"

text \<open>
  The inner helper \<^verbatim>\<open>com_z_rel(r1, r2, h)\<close>. numpy divides by zero without raising;
  the quotient is then not a finite number, which is \<open>None\<close> here.
\<close>

definition com_z_rel :: "real \<Rightarrow> real \<Rightarrow> real \<Rightarrow> real option" where
  "com_z_rel r1 r2 h =
     (let num = r1\<^sup>2 + 2 * r1 * r2 + 3 * r2\<^sup>2;
          den = r1\<^sup>2 + r1 * r2 + r2\<^sup>2
      in if 4 * den = 0 then None else Some (h * num / (4 * den)))"

definition center_of_mass_hollow_frustum ::
  "real \<Rightarrow> real \<Rightarrow> real \<Rightarrow> real \<Rightarrow> real \<Rightarrow> real option" where
  "center_of_mass_hollow_frustum d1 d2 z_bot z_top t =
     (let h = z_top - z_bot;
          r1 = d1 / 2;
          r2 = d2 / 2;
          R1 = r1 + t;
          R2 = r2 + t;
          V_outer = volume R1 R2 h;
          V_inner = volume r1 r2 h
      in case (com_z_rel R1 R2 h, com_z_rel r1 r2 h) of
           (Some z_outer_rel, Some z_inner_rel) \<Rightarrow>
             if V_outer - V_inner = 0 then None
             else Some (z_bot + (z_outer_rel * V_outer - z_inner_rel * V_inner) / (V_outer - V_inner))
         | _ \<Rightarrow> None)"

definition calc_weight :: "real \<Rightarrow> real \<Rightarrow> real \<Rightarrow> real \<Rightarrow> real \<Rightarrow> real \<Rightarrow> real" where
  "calc_weight rho t z_top z_bot d_top d_bot =
     (let h = \<bar>z_top - z_bot\<bar>;
          d1 = d_top;
          d2 = d_bot;
          volume = (1 / 3) * pi * h / 4 *
            (d1\<^sup>2 + d1 * d2 + d2\<^sup>2
             - (d1 - 2 * t)\<^sup>2
             - (d1 - 2 * t) * (d2 - 2 * t)
             - (d2 - 2 * t)\<^sup>2)
      in rho * volume)"

section \<open>Frustum geometry in binary floating point\<close>











section \<open>Structure tables (misc.py)\<close>

text \<open>
  A cell of a table as it is read from the workbook or the database:
  \<^item> \<open>Num x\<close>, a finite number;
  \<^item> \<open>NaN\<close>, a missing value (\<^verbatim>\<open>nan\<close> or \<^verbatim>\<open>None\<close>), which is what \<^verbatim>\<open>pd.isna\<close> detects;
  \<^item> \<open>Inf\<close>, the number \<^verbatim>\<open>inf\<close> or \<^verbatim>\<open>-inf\<close>;
  \<^item> \<open>NumericText x\<close>, a text that \<^verbatim>\<open>float\<close> parses as the finite number \<open>x\<close>;
  \<^item> \<open>NanText\<close> and \<open>InfText\<close>, a text that \<^verbatim>\<open>float\<close> parses as \<^verbatim>\<open>nan\<close>, or as
    \<^verbatim>\<open>inf\<close> or \<^verbatim>\<open>-inf\<close>;
  \<^item> \<open>NonNumeric\<close>, any other value: \<^verbatim>\<open>float\<close> and \<^verbatim>\<open>astype(float)\<close> raise on it.

  \<open>pyfloat\<close> is the value of \<^verbatim>\<open>float(c)\<close>; the sign of an infinity is not kept.
\<close>

datatype cell = Num real | NaN | Inf | NumericText real | NanText | InfText | NonNumeric

datatype pyfloat = Finite real | Nan | Infinity

text \<open>
  A row of a structure table before validation, with the columns
  \<^verbatim>\<open>Section, Top [m], Bottom [m], D, top [m], D, bottom [m], t [mm]\<close>.
\<close>

record raw_row =
  raw_Section :: cell
  raw_Top :: cell
  raw_Bottom :: cell
  raw_D_top :: cell
  raw_D_bottom :: cell
  raw_t_mm :: cell

text \<open>
  A row after \<^verbatim>\<open>astype(float)\<close>. \<open>Affiliation\<close> is \<open>None\<close> while the table has
  no such column. \<open>seg\<close> is a row without the \<^verbatim>\<open>Section\<close> column (the SKIRT table);
  in \<open>row\<close> the section is \<open>None\<close> where the cell is \<^verbatim>\<open>nan\<close>, as in the row that
  \<^verbatim>\<open>add_element\<close> creates.
\<close>

record seg =
  Affiliation :: "string option"
  Top :: real
  Bottom :: real
  D_top :: real
  D_bottom :: real
  t_mm :: real

record row = seg +
  Section :: "real option"

definition cells :: "raw_row \<Rightarrow> cell list" where
  "cells r = [raw_Section r, raw_Top r, raw_Bottom r, raw_D_top r, raw_D_bottom r, raw_t_mm r]"

text \<open>\<^verbatim>\<open>float(c)\<close>; \<open>None\<close> where it raises.\<close>

fun to_float :: "cell \<Rightarrow> pyfloat option" where
  "to_float (Num x) = Some (Finite x)"
| "to_float NaN = Some Nan"
| "to_float Inf = Some Infinity"
| "to_float (NumericText x) = Some (Finite x)"
| "to_float NanText = Some Nan"
| "to_float InfText = Some Infinity"
| "to_float NonNumeric = None"

fun finite_value :: "cell \<Rightarrow> real option" where
  "finite_value (Num x) = Some x"
| "finite_value (NumericText x) = Some x"
| "finite_value c = None"

text \<open>
  A row of \<^verbatim>\<open>data.astype(float)\<close>, for a row on which the conversion does not raise.
  The elevations, diameters and the thickness of a \<open>row\<close> are real numbers, so the result is
  a \<open>row\<close> only where these five values are finite; the section may also be \<^verbatim>\<open>nan\<close>.
  Where one of the five, or the section, is infinite or one of the five is \<^verbatim>\<open>nan\<close>,
  the converted row exists in the program but is no \<open>row\<close> of the model: \<open>None\<close>.
\<close>

definition astype_float :: "raw_row \<Rightarrow> row option" where
  "astype_float r =
     (case (finite_value (raw_Top r), finite_value (raw_Bottom r),
            finite_value (raw_D_top r), finite_value (raw_D_bottom r), finite_value (raw_t_mm r)) of
        (Some t, Some b, Some dt, Some db, Some th) \<Rightarrow>
          (case to_float (raw_Section r) of
             Some (Finite s) \<Rightarrow>
               Some \<lparr>Affiliation = None, Top = t, Bottom = b, D_top = dt, D_bottom = db,
                     t_mm = th, Section = Some s\<rparr>
           | Some Nan \<Rightarrow>
               Some \<lparr>Affiliation = None, Top = t, Bottom = b, D_top = dt, D_bottom = db,
                     t_mm = th, Section = None\<rparr>
           | _ \<Rightarrow> None)
      | _ \<Rightarrow> None)"

text \<open>
  \<^verbatim>\<open>valid_data\<close>: \<open>(False, data)\<close> with the data as they were when a cell is missing
  or the conversion raises, \<open>(True, data.astype(float))\<close> otherwise. The converted table
  is \<open>Inr df\<close>. A table that is accepted although one of its converted values is not a finite
  number (the text \<^verbatim>\<open>'inf'\<close> as an elevation, say) and that is no table of \<open>row\<close>s is
  returned as \<open>(True, Inl data)\<close>: the model says that the program accepts it and stands
  for it by the data as read.
\<close>

definition valid_data :: "raw_row list \<Rightarrow> bool \<times> (raw_row list + row list)" where
  "valid_data data =
     (if list_ex (\<lambda>r. list_ex (\<lambda>c. c = NaN) (cells r)) data then (False, Inl data)
      else if list_ex (\<lambda>r. list_ex (\<lambda>c. to_float c = None) (cells r)) data then (False, Inl data)
      else case those (map astype_float data) of
             Some df \<Rightarrow> (True, Inr df)
           | None \<Rightarrow> (True, Inl data))"

text \<open>What the program shows or writes, in the order it does so.\<close>

datatype message =
    InvalidData string
  | Misaligned "int list"
  | NoRNASelected
  | RNANotInMenu
  | HeightRefWarning "string option" "string option" "string option"
  | HeightRefSame "string option" "string option" "string option"
  | Gap real real real
  | Overlap real
  | UnderConstruction
  | PerfectFit
  | IdentifierTaken string
  | InvalidStructureData
  | Overwritten string string

text \<open>Python's \<^verbatim>\<open>int(x)\<close> of a float truncates towards zero.\<close>

definition int_of_float :: "real \<Rightarrow> int" where
  "int_of_float x = (if 0 \<le> x then \<lfloor>x\<rfloor> else \<lceil>x\<rceil>)"

text \<open>
  \<^verbatim>\<open>sanity_check_structure\<close>: the result is the message box shown (if any) and the
  boolean returned. Column 0 of the table, which the message quotes, is the section column;
  \<^verbatim>\<open>int\<close> of a \<^verbatim>\<open>nan\<close> section raises \<^verbatim>\<open>ValueError\<close>.
\<close>

definition sanity_check_structure :: "row list \<Rightarrow> py_error + (message list \<times> bool)" where
  "sanity_check_structure df =
     (let height_diff = map (\<lambda>(t, b). t - b = 0) (zip (map Top (tl df)) (map Bottom (butlast df)))
      in if \<not> list_all (\<lambda>v. v) height_diff then
           (case those (map (\<lambda>i. Section (df ! i))
                          (filter (\<lambda>i. \<not> height_diff ! i) [0..<length height_diff])) of
              None \<Rightarrow> Inl ValueError
            | Some secs \<Rightarrow> Inr ([Misaligned (map int_of_float secs)], False))
         else Inr ([], True))"

text \<open>
  The first component that \<^verbatim>\<open>check_convert_structure\<close> returns is either a boolean or
  the function object \<^verbatim>\<open>sanity_check_structure\<close> itself (line 35 assigns the function
  and does not call it). \<open>truthy\<close> is Python's truth value, which \<^verbatim>\<open>all([...])\<close> tests.
\<close>

datatype pyobj = PyBool bool | PyFunction string

fun truthy :: "pyobj \<Rightarrow> bool" where
  "truthy (PyBool b) = b"
| "truthy (PyFunction f) = True"

definition check_convert_structure ::
  "raw_row list \<Rightarrow> string \<Rightarrow> message list \<times> pyobj \<times> (raw_row list + row list)" where
  "check_convert_structure df Table =
     (case valid_data df of
        (success, df') \<Rightarrow>
          if \<not> success then ([InvalidData Table], PyBool success, df')
          else ([], PyFunction ''sanity_check_structure'', df'))"

subsection \<open>The node interpolator\<close>

text \<open>
  \<^verbatim>\<open>add_element\<close>: the lines printed and the table returned. The index of a row is its
  position (\<^verbatim>\<open>reset_index\<close>). The new row gets the columns the source assigns; its
  other column, \<^verbatim>\<open>Section\<close>, stays \<^verbatim>\<open>nan\<close>.
\<close>

definition add_element :: "row list \<Rightarrow> real \<Rightarrow> string list \<times> row list" where
  "add_element df z_new =
     (if list_ex (\<lambda>r. Top r = z_new \<or> Bottom r = z_new) df then ([], df)
      else
        let id_inter = filter (\<lambda>i. Top (df ! i) > z_new \<and> Bottom (df ! i) < z_new) [0..<length df]
        in case id_inter of
             [] \<Rightarrow> ([''interpolation not possible, outside bounds''], df)
           | i # others \<Rightarrow>
               if length id_inter > 1
               then ([''interpolation not possible, structure not consecutive''], df)
               else
                 let orig = df ! i;
                     inter_x_rel = (z_new - Bottom orig) / (Top orig - Bottom orig);
                     d_inter = (D_top orig - D_bottom orig) * inter_x_rel + D_bottom orig;
                     new_row = \<lparr>Affiliation = Affiliation orig, Top = z_new, Bottom = Bottom orig,
                                D_top = d_inter, D_bottom = D_bottom orig, t_mm = t_mm orig,
                                Section = None\<rparr>;
                     df' = df[i := orig\<lparr>Bottom := z_new\<rparr>]
                 in ([], take (i + 1) df' @ [new_row] @ drop (i + 1) df'))"

subsection \<open>Inputs and effects of an assembly run\<close>

text \<open>
  The single row of a \<^verbatim>\<open>*_META\<close> table (row 0 is read), a row of an added-mass
  table, a row of the RNA table (its identifier and its other cells), and the value column of
  \<^verbatim>\<open>STRUCTURE_META\<close>.
\<close>

record meta =
  Height_Reference :: "string option"
  Water_Depth :: "cell option"

record mass_row =
  mass_Affiliation :: "string option"
  mass_Top :: real
  mass_Bottom :: cell
  Mass_t :: cell
  comment :: string

type_synonym rna_row = "string \<times> cell list"

datatype meta_value = Blank | Text "string" | Number real | NotANumber | InfiniteNumber

record whole_row = seg +
  local_Section :: "real option"
  new_Section :: int

record pointmass =
  pm_Affiliation :: string
  Elevation :: "real option"
  pm_Mass :: real
  pm_comment :: string

text \<open>
  \<^verbatim>\<open>assemble_structure\<close> talks to the workbook through the module \<^verbatim>\<open>excel\<close>
  (\<^verbatim>\<open>read_excel_table\<close>, \<^verbatim>\<open>show_message_box\<close>, \<^verbatim>\<open>write_df_to_table\<close>), which
  is outside the two source files. What these functions return is an input of the model: the
  tables read, and the answers the user gives to the two yes/no message boxes. What they are
  given is recorded as an event: a message box shown, a table written, and also a line
  printed.
\<close>

record inputs =
  MP_DATA :: "raw_row list"
  TP_DATA :: "raw_row list"
  TOWER_DATA :: "raw_row list"
  RNA_DATA :: "rna_row list"
  MP_META :: meta
  TP_META :: meta
  TOWER_META :: meta
  STRUCTURE_META :: "(string \<times> meta_value) list"
  MP_MASSES :: "mass_row list"
  TP_MASSES :: "mass_row list"
  TOWER_MASSES :: "mass_row list"
  answer_height_reference :: string
  answer_overlap :: string

datatype event =
    MessageBox message
  | Print string
  | Write_RNA "rna_row list"
  | Write_SKIRT "seg list"
  | Write_SKIRT_POINTMASS pointmass
  | Write_WHOLE_STRUCTURE "whole_row list"
  | Write_ALL_ADDED_MASSES "mass_row list"
  | Write_STRUCTURE_META "(string \<times> meta_value) list"

text \<open>
  How a run ends: the function returns, or raises, or it goes on with a table that the model
  cannot hold, because validation accepted a value in it that is not a finite number
  (\<open>NonFiniteData\<close>; the model does not follow the run beyond that point).
\<close>

datatype outcome = Returned | Raised py_error | NonFiniteData

type_synonym run = "event list \<times> outcome"

fun is_write :: "event \<Rightarrow> bool" where
  "is_write (MessageBox m) = False"
| "is_write (Print l) = False"
| "is_write w = True"

subsection \<open>The stages of \<^verbatim>\<open>assemble_structure\<close>\<close>

text \<open>
  Each stage returns \<open>Inl\<close> of the finished run when the function returns or raises
  there, and \<open>Inr\<close> of what the next stage needs otherwise.
\<close>

definition all_same_ignoring_none :: "string option list \<Rightarrow> bool" where
  "all_same_ignoring_none vals =
     (let non_none = filter (\<lambda>v. v \<noteq> None) vals
      in case non_none of
           [] \<Rightarrow> True
         | v0 # others \<Rightarrow> length non_none \<le> 1 \<or> list_all (\<lambda>v. v = v0) non_none)"

text \<open>Lines 207 to 212: the quality checks of the three data sets.\<close>

definition quality_checks :: "inputs \<Rightarrow> run + (event list \<times> row list \<times> row list \<times> row list)" where
  "quality_checks inp =
     (case check_convert_structure (MP_DATA inp) ''MP'' of (m1, sucess_MP, mp) \<Rightarrow>
      case check_convert_structure (TP_DATA inp) ''TP'' of (m2, sucess_TP, tp) \<Rightarrow>
      case check_convert_structure (TOWER_DATA inp) ''TOWER'' of (m3, sucess_TOWER, tower) \<Rightarrow>
        let ev = map MessageBox (m1 @ m2 @ m3) in
        if \<not> list_all truthy [sucess_MP, sucess_TP, sucess_TOWER] then Inl (ev, Returned)
        else case (mp, tp, tower) of
               (Inr mp', Inr tp', Inr tower') \<Rightarrow> Inr (ev, mp', tp', tower')
             | _ \<Rightarrow> Inl (ev, NonFiniteData))"

text \<open>Lines 215 to 225: the RNA selection.\<close>

definition rna_selection :: "inputs \<Rightarrow> string \<Rightarrow> event list \<Rightarrow> run + event list" where
  "rna_selection inp RNA_config ev =
     (if RNA_config = '''' then Inr (ev @ [MessageBox NoRNASelected])
      else if RNA_config \<notin> set (map fst (RNA_DATA inp))
      then Inl (ev @ [MessageBox RNANotInMenu], Returned)
      else Inr (ev @ [Write_RNA (filter (\<lambda>r. fst r = RNA_config) (RNA_DATA inp))]))"

definition set_value :: "string \<Rightarrow> meta_value \<Rightarrow> (string \<times> meta_value) list \<Rightarrow> (string \<times> meta_value) list" where
  "set_value parameter v tab = map (\<lambda>(p, old). if p = parameter then (p, v) else (p, old)) tab"

text \<open>
  Lines 228 to 241: the height references. In the agreeing branch the source takes element 0
  of the list of references that are not \<^verbatim>\<open>None\<close>.
\<close>

definition height_reference_handling ::
  "inputs \<Rightarrow> event list \<Rightarrow> (string \<times> meta_value) list \<Rightarrow> run + (event list \<times> (string \<times> meta_value) list)" where
  "height_reference_handling inp ev smeta =
     (let WL_ref_MP = Height_Reference (MP_META inp);
          WL_ref_MT = Height_Reference (TP_META inp);
          WL_ref_TOWER = Height_Reference (TOWER_META inp)
      in if \<not> all_same_ignoring_none [WL_ref_MP, WL_ref_MT, WL_ref_TOWER] then
           (let ev' = ev @ [MessageBox (HeightRefWarning WL_ref_MP WL_ref_MT WL_ref_TOWER)]
            in if answer_height_reference inp = ''No'' then Inl (ev', Returned)
               else Inr (ev', smeta))
         else
           (case filter (\<lambda>v. v \<noteq> None) [WL_ref_MP, WL_ref_MT, WL_ref_TOWER] of
              [] \<Rightarrow> Inl (ev, Raised IndexError)
            | v # others \<Rightarrow>
                Inr (ev @ [MessageBox (HeightRefSame WL_ref_MP WL_ref_MT WL_ref_TOWER)],
                     set_value ''Height Reference'' (case v of Some ref \<Rightarrow> Text ref | None \<Rightarrow> Blank) smeta)))"

text \<open>
  Lines 244 and 245: the water depth. \<open>None\<close> is Python's \<^verbatim>\<open>None\<close>; on any other cell
  the source takes \<^verbatim>\<open>- float(...)\<close>, which raises on a text that is no number.
\<close>

definition waterdepth_handling ::
  "inputs \<Rightarrow> (string \<times> meta_value) list \<Rightarrow> py_error + (string \<times> meta_value) list" where
  "waterdepth_handling inp smeta =
     (case Water_Depth (MP_META inp) of
        None \<Rightarrow> Inr smeta
      | Some c \<Rightarrow>
          (case to_float c of
             None \<Rightarrow> Inl ValueError
           | Some (Finite d) \<Rightarrow> Inr (set_value ''Seabed level'' (Number (- d)) smeta)
           | Some Nan \<Rightarrow> Inr (set_value ''Seabed level'' NotANumber smeta)
           | Some Infinity \<Rightarrow> Inr (set_value ''Seabed level'' InfiniteNumber smeta)))"

definition insert_Affiliation :: "string \<Rightarrow> row list \<Rightarrow> row list" where
  "insert_Affiliation a df = map (\<lambda>r. r\<lparr>Affiliation := Some a\<rparr>) df"

text \<open>
  Lines 204 to 248, up to the three tables with their affiliation. The state handed on is
  the events so far, \<^verbatim>\<open>STRUCTURE_META\<close>, and the MP, TP and TOWER tables.
\<close>

definition prepare ::
  "inputs \<Rightarrow> string \<Rightarrow>
     run + (event list \<times> (string \<times> meta_value) list \<times> row list \<times> row list \<times> row list)" where
  "prepare inp RNA_config =
     (let smeta0 = map (\<lambda>(p, v). (p, Blank)) (STRUCTURE_META inp) in
      case quality_checks inp of
        Inl r \<Rightarrow> Inl r
      | Inr (ev1, mp, tp, tower) \<Rightarrow>
     (case rna_selection inp RNA_config ev1 of
        Inl r \<Rightarrow> Inl r
      | Inr ev2 \<Rightarrow>
     (case height_reference_handling inp ev2 smeta0 of
        Inl r \<Rightarrow> Inl r
      | Inr (ev3, smeta1) \<Rightarrow>
     (case waterdepth_handling inp smeta1 of
        Inl e \<Rightarrow> Inl (ev3, Raised e)
      | Inr smeta2 \<Rightarrow>
          Inr (ev3, smeta2, insert_Affiliation ''MP'' mp, insert_Affiliation ''TP'' tp,
               insert_Affiliation ''TOWER'' tower)))))"

text \<open>
  Lines 285 to 301: the SKIRT table and its point mass. With an empty SKIRT both sums are
  the integer 0 and the division raises; otherwise the operands are numpy numbers, and a
  division by zero gives a value that is not a finite number (\<open>None\<close>).
\<close>

definition skirt_table :: "row list \<Rightarrow> real \<Rightarrow> seg list" where
  "skirt_table tp MP_top =
     map (\<lambda>r. seg.truncate (r\<lparr>Affiliation := Some ''SKIRT''\<rparr>)) (filter (\<lambda>r. Top r \<le> MP_top) tp)"

definition skirt_weights :: "real \<Rightarrow> seg list \<Rightarrow> real list" where
  "skirt_weights rho SKIRT =
     map (\<lambda>s. calc_weight rho (t_mm s / 1000) (Top s) (Bottom s) (D_top s) (D_bottom s) / 1000) SKIRT"

definition skirt_heihgts :: "seg list \<Rightarrow> real option list" where
  "skirt_heihgts SKIRT =
     map (\<lambda>s. center_of_mass_hollow_frustum (D_bottom s) (D_top s) (Bottom s) (Top s) (t_mm s / 1000)) SKIRT"

definition skirt_pointmass :: "real \<Rightarrow> seg list \<Rightarrow> py_error + pointmass" where
  "skirt_pointmass rho SKIRT =
     (let skirt_weight = sum_list (skirt_weights rho SKIRT)
      in if SKIRT = [] then Inl ZeroDivisionError
         else
           let skirt_center_of_mass =
                 (case those (skirt_heihgts SKIRT) of
                    None \<Rightarrow> None
                  | Some hs \<Rightarrow>
                      if skirt_weight = 0 then None
                      else Some (sum_list (map (\<lambda>(m, h). m * h) (zip (skirt_weights rho SKIRT) hs))
                                 / skirt_weight))
           in Inr \<lparr>pm_Affiliation = ''SKIRT'', Elevation = skirt_center_of_mass,
                   pm_Mass = skirt_weight, pm_comment = ''Skirt''\<rparr>)"

text \<open>
  Lines 251 to 309: the MP/TP connection. \<open>Inr\<close> carries the events and
  \<^verbatim>\<open>WHOLE_STRUCTURE\<close> as it stands before the tower is added.
\<close>

definition junction ::
  "real \<Rightarrow> string \<Rightarrow> event list \<Rightarrow> row list \<Rightarrow> row list \<Rightarrow> run + (event list \<times> row list)" where
  "junction rho answer ev mp tp =
     (case mp of
        [] \<Rightarrow> Inl (ev, Raised IndexError)
      | m # ms \<Rightarrow>
     (case tp of
        [] \<Rightarrow> Inl (ev, Raised IndexError)
      | p # ps \<Rightarrow>
          let MP_top = Top m;
              TP_bot = Bottom (last tp)
          in if MP_top < TP_bot
             then Inl (ev @ [MessageBox (Gap MP_top TP_bot (TP_bot - MP_top))], Returned)
             else if MP_top > TP_bot then
               (let ev' = ev @ [MessageBox (Overlap (- TP_bot + MP_top))]
                in if answer = ''Yes'' then Inr (ev' @ [MessageBox UnderConstruction], mp)
                   else
                     (case add_element tp MP_top of (printed, tp') \<Rightarrow>
                        let SKIRT = skirt_table tp' MP_top
                        in case skirt_pointmass rho SKIRT of
                             Inl e \<Rightarrow> Inl (ev' @ map Print printed, Raised e)
                           | Inr SKIRT_POINTMASS \<Rightarrow>
                               Inr (ev' @ map Print printed
                                        @ [Write_SKIRT SKIRT, Write_SKIRT_POINTMASS SKIRT_POINTMASS],
                                    filter (\<lambda>r. Bottom r \<ge> MP_top) tp' @ mp)))
             else Inr (ev @ [MessageBox PerfectFit], tp @ mp)))"

text \<open>Lines 312 to 321: the tower on top, and the new section numbers.\<close>

definition shift_rows :: "real \<Rightarrow> row list \<Rightarrow> row list" where
  "shift_rows tower_offset df =
     map (\<lambda>r. r\<lparr>Top := Top r + tower_offset, Bottom := Bottom r + tower_offset\<rparr>) df"

definition renumber :: "row list \<Rightarrow> whole_row list" where
  "renumber df =
     map (\<lambda>(i, r). \<lparr>Affiliation = Affiliation r, Top = Top r, Bottom = Bottom r, D_top = D_top r,
                     D_bottom = D_bottom r, t_mm = t_mm r, local_Section = Section r,
                     new_Section = int i + 1\<rparr>)
         (enumerate 0 df)"

text \<open>
  Lines 329 to 338: the added masses; the column \<^verbatim>\<open>Top [m]\<close> holds finite numbers.
  In the column \<^verbatim>\<open>Bottom [m]\<close> of the tower the offset is added to every cell that
  \<^verbatim>\<open>pd.to_numeric\<close> turns into a number other than \<^verbatim>\<open>nan\<close>. Where such a cell is
  a text (\<^verbatim>\<open>'5'\<close>, \<^verbatim>\<open>'inf'\<close>) the addition raises \<^verbatim>\<open>TypeError\<close>; an infinite number
  stays infinite; every other cell is left as it is. \<^verbatim>\<open>sort_values\<close> leaves the order of
  rows with equal \<^verbatim>\<open>Top [m]\<close> open; here they keep their order.
\<close>

fun shift_Bottom :: "real \<Rightarrow> cell \<Rightarrow> py_error + cell" where
  "shift_Bottom tower_offset (Num b) = Inr (Num (b + tower_offset))"
| "shift_Bottom tower_offset Inf = Inr Inf"
| "shift_Bottom tower_offset (NumericText x) = Inl TypeError"
| "shift_Bottom tower_offset InfText = Inl TypeError"
| "shift_Bottom tower_offset NaN = Inr NaN"
| "shift_Bottom tower_offset NanText = Inr NanText"
| "shift_Bottom tower_offset NonNumeric = Inr NonNumeric"

fun shift_masses :: "real \<Rightarrow> mass_row list \<Rightarrow> py_error + mass_row list" where
  "shift_masses tower_offset [] = Inr []"
| "shift_masses tower_offset (m # ms) =
     (case (shift_Bottom tower_offset (mass_Bottom m), shift_masses tower_offset ms) of
        (Inr b, Inr ms') \<Rightarrow> Inr (m\<lparr>mass_Top := mass_Top m + tower_offset, mass_Bottom := b\<rparr> # ms')
      | _ \<Rightarrow> Inl TypeError)"

definition tag_masses :: "string \<Rightarrow> mass_row list \<Rightarrow> mass_row list" where
  "tag_masses a ms = map (\<lambda>m. m\<lparr>mass_Affiliation := Some a\<rparr>) ms"

definition add_tower ::
  "inputs \<Rightarrow> event list \<Rightarrow> (string \<times> meta_value) list \<Rightarrow> row list \<Rightarrow> row list \<Rightarrow> run" where
  "add_tower inp ev smeta WHOLE_STRUCTURE tower =
     (case WHOLE_STRUCTURE of
        [] \<Rightarrow> (ev, Raised IndexError)
      | w # ws \<Rightarrow>
          if tower = [] then (ev, Raised IndexError)
          else
            let tower_offset = Top w - Bottom (last tower);
                WHOLE = renumber (shift_rows tower_offset tower @ WHOLE_STRUCTURE);
                ev' = ev @ [Write_WHOLE_STRUCTURE WHOLE]
            in case shift_masses tower_offset (TOWER_MASSES inp) of
                 Inl e \<Rightarrow> (ev', Raised e)
               | Inr TOWER_MASSES' \<Rightarrow>
                   let ALL_MASSES = sort_key (\<lambda>m. - mass_Top m)
                         (tag_masses ''MP'' (MP_MASSES inp) @ tag_masses ''TP'' (TP_MASSES inp)
                          @ tag_masses ''TOWER'' TOWER_MASSES')
                   in (ev' @ [Write_ALL_ADDED_MASSES ALL_MASSES, Write_STRUCTURE_META smeta],
                       Returned))"

definition assemble_structure :: "inputs \<Rightarrow> real \<Rightarrow> string \<Rightarrow> run" where
  "assemble_structure inp rho RNA_config =
     (case prepare inp RNA_config of
        Inl r \<Rightarrow> r
      | Inr (ev, smeta, mp, tp, tower) \<Rightarrow>
     (case junction rho (answer_overlap inp) ev mp tp of
        Inl r \<Rightarrow> r
      | Inr (ev', WHOLE_STRUCTURE) \<Rightarrow> add_tower inp ev' smeta WHOLE_STRUCTURE tower))"

subsection \<open>Example tables\<close>

text \<open>A raw row of numbers: section, top, bottom, diameter at the top and at the bottom, thickness.\<close>

definition raw_of :: "real \<Rightarrow> real \<Rightarrow> real \<Rightarrow> real \<Rightarrow> real \<Rightarrow> real \<Rightarrow> raw_row" where
  "raw_of s t b dt db th =
     \<lparr>raw_Section = Num s, raw_Top = Num t, raw_Bottom = Num b, raw_D_top = Num dt,
      raw_D_bottom = Num db, raw_t_mm = Num th\<rparr>"

definition row_of :: "string option \<Rightarrow> real option \<Rightarrow> real \<Rightarrow> real \<Rightarrow> real \<Rightarrow> real \<Rightarrow> real \<Rightarrow> row" where
  "row_of a s t b dt db th =
     \<lparr>Affiliation = a, Top = t, Bottom = b, D_top = dt, D_bottom = db, t_mm = th, Section = s\<rparr>"

definition no_meta :: meta where
  "no_meta = \<lparr>Height_Reference = None, Water_Depth = None\<rparr>"

text \<open>
  A workbook with one MP, one TP and one tower segment, the height reference \<^verbatim>\<open>LAT\<close>
  on the MP only, no RNA table and no added masses; the user answers \<^verbatim>\<open>No\<close> (skirt)
  to the overlap question.
\<close>

definition workbook :: "raw_row list \<Rightarrow> raw_row list \<Rightarrow> inputs" where
  "workbook mp tp =
     \<lparr>MP_DATA = mp, TP_DATA = tp, TOWER_DATA = [raw_of 1 100 0 4 4 30],
      RNA_DATA = [(''R1'', [])],
      MP_META = \<lparr>Height_Reference = Some ''LAT'', Water_Depth = Some (Num 30)\<rparr>,
      TP_META = no_meta, TOWER_META = no_meta,
      STRUCTURE_META = [(''Height Reference'', Text ''old''), (''Seabed level'', Blank)],
      MP_MASSES = [], TP_MASSES = [], TOWER_MASSES = [],
      answer_height_reference = ''Yes'', answer_overlap = ''No''\<rparr>"

fun is_Write_WHOLE_STRUCTURE :: "event \<Rightarrow> bool" where
  "is_Write_WHOLE_STRUCTURE (Write_WHOLE_STRUCTURE rows) = True"
| "is_Write_WHOLE_STRUCTURE e = False"

fun is_Write_STRUCTURE_META :: "event \<Rightarrow> bool" where
  "is_Write_STRUCTURE_META (Write_STRUCTURE_META tab) = True"
| "is_Write_STRUCTURE_META e = False"

text \<open>
  The scenario of an MP from 10 to 0 and a TP from 12 to 8, which overlap by 2: the MP row,
  the TP table, and the TP table after the node at 10 is inserted.
\<close>

definition scenario_MP :: row where
  "scenario_MP = row_of (Some ''MP'') (Some 1) 10 0 5 5 50"

definition scenario_TP :: "row list" where
  "scenario_TP = [row_of (Some ''TP'') (Some 1) 12 8 5 5 50]"

definition scenario_TP_cut :: "row list" where
  "scenario_TP_cut =
     [row_of (Some ''TP'') (Some 1) 12 10 5 5 50, row_of (Some ''TP'') None 10 8 5 5 50]"


subsection \<open>Elevation order\<close>

text \<open>
  The order that the data model asks of a structure, on the pairs (top, bottom) of its rows:
  every row has its top above its bottom, and every row begins at or below the bottom of the
  row before it.
\<close>

fun descending :: "(real \<times> real) list \<Rightarrow> bool" where
  "descending [] = True"
| "descending ((t, b) # rest) = (b < t \<and> (rest = [] \<or> fst (hd rest) \<le> b) \<and> descending rest)"

definition top_to_bottom :: "'a seg_scheme list \<Rightarrow> bool" where
  "top_to_bottom df = descending (map (\<lambda>r. (Top r, Bottom r)) df)"



section \<open>The database of structures (db\_handling.py)\<close>

text \<open>
  The SQLite file is a map from table names to tables. A table is the \<^verbatim>\<open>META\<close> table,
  whose rows start with the column \<^verbatim>\<open>Identifier\<close>, or a table of cells (structure
  data, added masses). Connecting to the database is taken to succeed.
\<close>

record db_meta_row =
  Identifier :: string
  Meta_values :: "cell list"

datatype table = MetaTable "db_meta_row list" | DataTable "cell list list"

type_synonym db = "string \<Rightarrow> table option"








section \<open>Properties of the frustum geometry\<close>

lemma wall_area_expand:
  fixes d1 d2 t :: real
  shows "d1\<^sup>2 + d1 * d2 + d2\<^sup>2 - (d1 - 2 * t)\<^sup>2 - (d1 - 2 * t) * (d2 - 2 * t) - (d2 - 2 * t)\<^sup>2
       = 6 * t * (d1 + d2 - 2 * t)"
  by (simp add: power2_eq_square algebra_simps)

lemma calc_weight_closed:
  "calc_weight rho t z_top z_bot d_top d_bot
     = rho * (pi * \<bar>z_top - z_bot\<bar> / 2 * (t * (d_top + d_bot - 2 * t)))"
  unfolding calc_weight_def Let_def wall_area_expand by simp


lemma num_diff:
  fixes r1 r2 t :: real
  shows "((r1 + t)\<^sup>2 + 2 * (r1 + t) * (r2 + t) + 3 * (r2 + t)\<^sup>2) - (r1\<^sup>2 + 2 * r1 * r2 + 3 * r2\<^sup>2)
       = t * (4 * r1 + 8 * r2 + 6 * t)"
  by (simp add: power2_eq_square algebra_simps)

lemma den_diff:
  fixes r1 r2 t :: real
  shows "((r1 + t)\<^sup>2 + (r1 + t) * (r2 + t) + (r2 + t)\<^sup>2) - (r1\<^sup>2 + r1 * r2 + r2\<^sup>2)
       = 3 * t * (r1 + r2 + t)"
  by (simp add: power2_eq_square algebra_simps)

lemma den_pos:
  fixes r1 r2 :: real
  assumes "0 < r1" "0 < r2"
  shows "0 < r1\<^sup>2 + r1 * r2 + r2\<^sup>2"
  using assms by (simp add: add_pos_pos)

lemma quotient_cancel:
  fixes p h t K S :: real
  assumes "p \<noteq> 0" "h \<noteq> 0" "t \<noteq> 0" "S \<noteq> 0"
  shows "(p * h * h * (t * K) / 12) / ((p * h / 3) * (3 * t * S)) = h * K / (12 * S)"
  using assms by (simp add: field_simps)

lemma com_closed:
  assumes "0 < t" "0 < d1" "0 < d2" "z_bot < z_top"
  shows "center_of_mass_hollow_frustum d1 d2 z_bot z_top t
     = Some (z_bot + (z_top - z_bot) * (2 * d1 + 4 * d2 + 6 * t) / (6 * (d1 + d2 + 2 * t)))"
proof -
  define h where "h = z_top - z_bot"
  define r1 where "r1 = d1 / 2"
  define r2 where "r2 = d2 / 2"
  define Do where "Do = (r1 + t)\<^sup>2 + (r1 + t) * (r2 + t) + (r2 + t)\<^sup>2"
  define Di where "Di = r1\<^sup>2 + r1 * r2 + r2\<^sup>2"
  define No where "No = (r1 + t)\<^sup>2 + 2 * (r1 + t) * (r2 + t) + 3 * (r2 + t)\<^sup>2"
  define Ni where "Ni = r1\<^sup>2 + 2 * r1 * r2 + 3 * r2\<^sup>2"
  have r: "0 < r1" "0 < r2" "0 < h" using assms by (simp_all add: r1_def r2_def h_def)
  have Di: "0 < Di" unfolding Di_def using r(1,2) by (rule den_pos)
  have Do: "0 < Do" unfolding Do_def using r assms(1) by (intro den_pos) auto
  have dd: "Do - Di = 3 * t * (r1 + r2 + t)" unfolding Do_def Di_def by (rule den_diff)
  have nd: "No - Ni = t * (4 * r1 + 8 * r2 + 6 * t)" unfolding No_def Ni_def by (rule num_diff)
  have ddpos: "0 < Do - Di" unfolding dd using r assms(1) by (intro mult_pos_pos) auto
  have Vo: "volume (r1 + t) (r2 + t) h = (pi * h / 3) * Do"
    by (simp add: volume_def Do_def)
  have Vi: "volume r1 r2 h = (pi * h / 3) * Di"
    by (simp add: volume_def Di_def)
  have Vd: "volume (r1 + t) (r2 + t) h - volume r1 r2 h = (pi * h / 3) * (Do - Di)"
    by (simp add: Vo Vi algebra_simps)
  have Vd0: "volume (r1 + t) (r2 + t) h - volume r1 r2 h \<noteq> 0"
    unfolding Vd using ddpos r by simp
  have co: "com_z_rel (r1 + t) (r2 + t) h = Some (h * No / (4 * Do))"
    using Do by (simp add: com_z_rel_def Let_def No_def Do_def)
  have ci: "com_z_rel r1 r2 h = Some (h * Ni / (4 * Di))"
    using Di by (simp add: com_z_rel_def Let_def Ni_def Di_def)
  have zo: "h * No / (4 * Do) * volume (r1 + t) (r2 + t) h = pi * h * h * No / 12"
    using Do by (simp add: Vo field_simps)
  have zi: "h * Ni / (4 * Di) * volume r1 r2 h = pi * h * h * Ni / 12"
    using Di by (simp add: Vi field_simps)
  have numer: "h * No / (4 * Do) * volume (r1 + t) (r2 + t) h - h * Ni / (4 * Di) * volume r1 r2 h
          = pi * h * h * (t * (4 * r1 + 8 * r2 + 6 * t)) / 12"
    unfolding zo zi nd[symmetric] by (simp add: algebra_simps)
  have denom: "volume (r1 + t) (r2 + t) h - volume r1 r2 h = (pi * h / 3) * (3 * t * (r1 + r2 + t))"
    unfolding Vd dd ..
  have tpos: "0 < r1 + r2 + t" using r assms(1) by simp
  have q: "(h * No / (4 * Do) * volume (r1 + t) (r2 + t) h - h * Ni / (4 * Di) * volume r1 r2 h)
            / (volume (r1 + t) (r2 + t) h - volume r1 r2 h)
         = h * (2 * d1 + 4 * d2 + 6 * t) / (6 * (d1 + d2 + 2 * t))"
  proof -
    have "(pi * h * h * (t * (4 * r1 + 8 * r2 + 6 * t)) / 12) / ((pi * h / 3) * (3 * t * (r1 + r2 + t)))
        = h * (4 * r1 + 8 * r2 + 6 * t) / (12 * (r1 + r2 + t))"
      using r(3) assms(1) tpos by (intro quotient_cancel) auto
    also have "\<dots> = h * (2 * d1 + 4 * d2 + 6 * t) / (6 * (d1 + d2 + 2 * t))"
      using tpos by (simp add: r1_def r2_def field_simps)
    finally show ?thesis unfolding numer denom .
  qed
  show ?thesis
    unfolding center_of_mass_hollow_frustum_def Let_def
    using co ci Vd0 q by (simp add: h_def r1_def r2_def)
qed


subsection \<open>Rounding\<close>











section \<open>Validation of a structure table\<close>

lemmas prepare_defs = prepare_def quality_checks_def check_convert_structure_def valid_data_def
  cells_def astype_float_def rna_selection_def height_reference_handling_def
  all_same_ignoring_none_def waterdepth_handling_def insert_Affiliation_def set_value_def

text \<open>
  Whenever the data are numeric, the success value is the function object, whatever the
  elevations of the rows are: \<^verbatim>\<open>sanity_check_structure\<close> is never called.
\<close>

lemma check_convert_structure_success:
  "fst (valid_data df) \<Longrightarrow>
     fst (snd (check_convert_structure df Table)) = PyFunction ''sanity_check_structure''"
  by (cases "valid_data df") (simp add: check_convert_structure_def)

text \<open>The quality checks themselves never raise.\<close>

lemma quality_checks_never_raises: "quality_checks inp \<noteq> Inl (ev, Raised e)"
  by (auto simp: quality_checks_def Let_def split: prod.splits sum.splits)

text \<open>
  Claim C1 (violated by the code). The claim wants a table with an adjacent pair
  \<open>Top (i+1) \<noteq> Bottom i\<close> to be reported and rejected by \<^verbatim>\<open>check_convert_structure\<close>.
  For the MP table with the rows (top 10, bottom 5) and (top 4, bottom 0) the function
  shows no message and returns a success value that is true, although
  \<^verbatim>\<open>sanity_check_structure\<close>, had it been called, reports section 1 and returns False.
\<close>

theorem check_convert_structure_accepts_gap:
  "check_convert_structure [raw_of 1 10 5 6 6 50, raw_of 2 4 0 6 6 50] ''MP''
     = ([], PyFunction ''sanity_check_structure'',
        Inr [row_of None (Some 1) 10 5 6 6 50, row_of None (Some 2) 4 0 6 6 50])
   \<and> truthy (PyFunction ''sanity_check_structure'')
   \<and> sanity_check_structure [row_of None (Some 1) 10 5 6 6 50, row_of None (Some 2) 4 0 6 6 50]
     = Inr ([Misaligned [1]], False)"
  by (simp add: check_convert_structure_def valid_data_def cells_def astype_float_def raw_of_def
      row_of_def sanity_check_structure_def int_of_float_def)

lemma workbook_sel:
  "answer_overlap (workbook mp tp) = ''No''" "MP_MASSES (workbook mp tp) = []"
  "TP_MASSES (workbook mp tp) = []" "TOWER_MASSES (workbook mp tp) = []"
  by (simp_all add: workbook_def)

lemma prepare_gap_workbook:
  "prepare (workbook [raw_of 1 10 5 6 6 50, raw_of 2 4 0 6 6 50] [raw_of 1 12 10 6 6 50]) ''''
    = Inr ([MessageBox NoRNASelected, MessageBox (HeightRefSame (Some ''LAT'') None None)],
           [(''Height Reference'', Text ''LAT''), (''Seabed level'', Number (- 30))],
           [row_of (Some ''MP'') (Some 1) 10 5 6 6 50, row_of (Some ''MP'') (Some 2) 4 0 6 6 50],
           [row_of (Some ''TP'') (Some 1) 12 10 6 6 50],
           [row_of (Some ''TOWER'') (Some 1) 100 0 4 4 30])"
  by (simp add: workbook_def no_meta_def raw_of_def row_of_def prepare_defs)

text \<open>The run with that MP table is not aborted: it writes the assembled structure.\<close>

lemma assemble_structure_accepts_gap:
  "snd (assemble_structure
          (workbook [raw_of 1 10 5 6 6 50, raw_of 2 4 0 6 6 50] [raw_of 1 12 10 6 6 50]) rho '''')
     = Returned
   \<and> (\<exists>rows. Write_WHOLE_STRUCTURE rows \<in> set (fst (assemble_structure
          (workbook [raw_of 1 10 5 6 6 50, raw_of 2 4 0 6 6 50] [raw_of 1 12 10 6 6 50]) rho '''')))"
  by (simp add: assemble_structure_def prepare_gap_workbook junction_def add_tower_def row_of_def
      Let_def workbook_sel)

section \<open>The node interpolator\<close>



text \<open>
  Claim C2 (violated by the code). The claim wants both halves to carry the interpolated
  diameter at the cut, so that inserting \<open>z = 5\<close> into the segment (top 10, bottom 0,
  diameters 6 and 4) gives (10, 5, 6, 5) above (5, 0, 5, 4). The code gives the lower half the
  top diameter 5 but leaves the bottom diameter of the upper half at 4.
\<close>

theorem add_element_example_keeps_bottom_diameter:
  "add_element [row_of None (Some 1) 10 0 6 4 50] 5
     = ([], [row_of None (Some 1) 10 5 6 4 50, row_of None None 5 0 5 4 50])"
  by (simp add: add_element_def row_of_def Let_def)

lemma add_element_twice:
  "snd (add_element (snd (add_element df z)) z) = snd (add_element df z)"
proof (cases "list_ex (\<lambda>r. Top r = z \<or> Bottom r = z) df")
  case True
  then show ?thesis by (simp add: add_element_def)
next
  case False
  define ids where "ids = filter (\<lambda>i. Top (df ! i) > z \<and> Bottom (df ! i) < z) [0..<length df]"
  show ?thesis
  proof (cases ids)
    case Nil
    then have "add_element df z = ([''interpolation not possible, outside bounds''], df)"
      using False by (simp add: add_element_def ids_def)
    then show ?thesis by simp
  next
    case (Cons i others)
    show ?thesis
    proof (cases "length ids > 1")
      case True
      then have "add_element df z = ([''interpolation not possible, structure not consecutive''], df)"
        using False Cons by (simp add: add_element_def ids_def[symmetric])
      then show ?thesis by simp
    next
      case single: False
      have "list_ex (\<lambda>r. Top r = z \<or> Bottom r = z) (snd (add_element df z))"
        using False Cons single by (simp add: add_element_def ids_def[symmetric] Let_def)
      then show ?thesis by (simp add: add_element_def)
    qed
  qed
qed

text \<open>
  Claim C8. \<^verbatim>\<open>add_element\<close> is idempotent: for every table and every elevation \<open>z\<close>, the
  table returned by a second call with the same \<open>z\<close> equals the table returned by the first;
  and when \<open>z\<close> already is a top or bottom elevation of the table, the table is returned
  unchanged (and nothing is printed).
\<close>

theorem add_element_idempotent:
  "snd (add_element (snd (add_element df z)) z) = snd (add_element df z)
   \<and> (list_ex (\<lambda>r. Top r = z \<or> Bottom r = z) df \<longrightarrow> add_element df z = ([], df))"
  using add_element_twice[of df z] by (simp add: add_element_def)

theorem add_element_idempotent_witness:
  "snd (add_element (snd (add_element [row_of None (Some 1) 10 0 6 4 50] 5)) 5)
     = snd (add_element [row_of None (Some 1) 10 0 6 4 50] 5)
   \<and> snd (add_element [row_of None (Some 1) 10 0 6 4 50] 5)
     = [row_of None (Some 1) 10 5 6 4 50, row_of None None 5 0 5 4 50]
   \<and> list_ex (\<lambda>r. Top r = 10 \<or> Bottom r = 10) [row_of None (Some 1) 10 0 6 4 50]
   \<and> add_element [row_of None (Some 1) 10 0 6 4 50] 10 = ([], [row_of None (Some 1) 10 0 6 4 50])"
  using add_element_idempotent[of "[row_of None (Some 1) 10 0 6 4 50]" 5]
    add_element_idempotent[of "[row_of None (Some 1) 10 0 6 4 50]" 10]
  by (simp add: add_element_def row_of_def Let_def)

lemma prepare_inside_workbook:
  "prepare (workbook [raw_of 1 10 0 5 5 50] [raw_of 1 9 8 5 5 50]) ''''
    = Inr ([MessageBox NoRNASelected, MessageBox (HeightRefSame (Some ''LAT'') None None)],
           [(''Height Reference'', Text ''LAT''), (''Seabed level'', Number (- 30))],
           [row_of (Some ''MP'') (Some 1) 10 0 5 5 50],
           [row_of (Some ''TP'') (Some 1) 9 8 5 5 50],
           [row_of (Some ''TOWER'') (Some 1) 100 0 4 4 30])"
  by (simp add: workbook_def no_meta_def raw_of_def row_of_def prepare_defs)

text \<open>
  Claim C3 (violated by the code). The claim wants a target elevation that no segment, or
  more than one segment, strictly straddles to make the interpolation fail and abort the run.
  \<^verbatim>\<open>add_element\<close> does perform no insertion, but it prints a line and returns the table
  (its docstring announces \<^verbatim>\<open>None\<close>), and the caller goes on: with the MP from 10 to 0
  and the TP from 9 to 8, the elevation 10 is outside the TP, and \<^verbatim>\<open>assemble_structure\<close>
  returns normally after writing \<^verbatim>\<open>WHOLE_STRUCTURE\<close>.
\<close>

theorem add_element_failure_goes_on:
  "add_element [row_of (Some ''TP'') (Some 1) 9 8 5 5 50] 10
     = ([''interpolation not possible, outside bounds''], [row_of (Some ''TP'') (Some 1) 9 8 5 5 50])
   \<and> add_element [row_of None (Some 1) 12 8 5 5 50, row_of None (Some 2) 11 7 5 5 50] 10
     = ([''interpolation not possible, structure not consecutive''],
        [row_of None (Some 1) 12 8 5 5 50, row_of None (Some 2) 11 7 5 5 50])
   \<and> snd (assemble_structure (workbook [raw_of 1 10 0 5 5 50] [raw_of 1 9 8 5 5 50]) 7850 '''')
     = Returned
   \<and> list_ex is_Write_WHOLE_STRUCTURE
        (fst (assemble_structure (workbook [raw_of 1 10 0 5 5 50] [raw_of 1 9 8 5 5 50]) 7850 ''''))"
proof -
  have a: "add_element [row_of (Some ''TP'') (Some 1) 9 8 5 5 50] 10
     = ([''interpolation not possible, outside bounds''], [row_of (Some ''TP'') (Some 1) 9 8 5 5 50])"
    by (simp add: add_element_def row_of_def Let_def)
  have b: "add_element [row_of None (Some 1) 12 8 5 5 50, row_of None (Some 2) 11 7 5 5 50] 10
     = ([''interpolation not possible, structure not consecutive''],
        [row_of None (Some 1) 12 8 5 5 50, row_of None (Some 2) 11 7 5 5 50])"
    by (simp add: add_element_def row_of_def Let_def upt_rec)
  have t: "Top (row_of a s t b dt db th) = t" "Bottom (row_of a s t b dt db th) = b"
    for a s t b dt db th
    by (simp_all add: row_of_def)
  have c: "snd (assemble_structure (workbook [raw_of 1 10 0 5 5 50] [raw_of 1 9 8 5 5 50]) 7850 '''')
     = Returned"
    by (simp add: assemble_structure_def prepare_inside_workbook junction_def a t skirt_table_def
        skirt_pointmass_def add_tower_def Let_def workbook_sel)
  have d: "list_ex is_Write_WHOLE_STRUCTURE
        (fst (assemble_structure (workbook [raw_of 1 10 0 5 5 50] [raw_of 1 9 8 5 5 50]) 7850 ''''))"
    by (simp add: assemble_structure_def prepare_inside_workbook junction_def a t skirt_table_def
        skirt_pointmass_def add_tower_def Let_def workbook_sel)
  from a b c d show ?thesis by blast
qed

section \<open>The assembly run\<close>

subsection \<open>Height references\<close>

text \<open>
  Claim C6. When the quality checks pass and the RNA selection does not end the run, and the
  height references of MP, TP and TOWER are all \<^verbatim>\<open>None\<close>, then
  \<^verbatim>\<open>all_same_ignoring_none\<close> holds (no conflict), and \<^verbatim>\<open>assemble_structure\<close> raises
  \<^verbatim>\<open>IndexError\<close> right there: the run ends with the events of the first two stages, and
  \<^verbatim>\<open>STRUCTURE_META\<close> is never written.
\<close>

theorem height_reference_all_none_raises:
  assumes "quality_checks inp = Inr (ev1, mp, tp, tower)"
    and "rna_selection inp RNA_config ev1 = Inr ev2"
    and "Height_Reference (MP_META inp) = None"
    and "Height_Reference (TP_META inp) = None"
    and "Height_Reference (TOWER_META inp) = None"
  shows "all_same_ignoring_none [Height_Reference (MP_META inp), Height_Reference (TP_META inp),
                                 Height_Reference (TOWER_META inp)]
       \<and> assemble_structure inp rho RNA_config = (ev2, Raised IndexError)
       \<and> \<not> list_ex is_Write_STRUCTURE_META ev2"
proof -
  have "\<not> list_ex is_Write_STRUCTURE_META ev1"
    using assms(1)
    by (auto simp: quality_checks_def Let_def list_ex_iff split: prod.splits if_splits sum.splits)
  then have "\<not> list_ex is_Write_STRUCTURE_META ev2"
    using assms(2) by (auto simp: rna_selection_def split: if_splits)
  moreover have "assemble_structure inp rho RNA_config = (ev2, Raised IndexError)"
    using assms by (simp add: assemble_structure_def prepare_def height_reference_handling_def
        all_same_ignoring_none_def)
  ultimately show ?thesis using assms(3-5) by (simp add: all_same_ignoring_none_def)
qed

theorem height_reference_all_none_raises_witness:
  "quality_checks ((workbook [raw_of 1 10 0 5 5 50] [raw_of 1 12 10 5 5 50])\<lparr>MP_META := no_meta\<rparr>)
     = Inr ([], [row_of None (Some 1) 10 0 5 5 50], [row_of None (Some 1) 12 10 5 5 50],
            [row_of None (Some 1) 100 0 4 4 30])
   \<and> rna_selection ((workbook [raw_of 1 10 0 5 5 50] [raw_of 1 12 10 5 5 50])\<lparr>MP_META := no_meta\<rparr>) '''' []
     = Inr [MessageBox NoRNASelected]
   \<and> Height_Reference (MP_META ((workbook [raw_of 1 10 0 5 5 50] [raw_of 1 12 10 5 5 50])\<lparr>MP_META := no_meta\<rparr>)) = None
   \<and> Height_Reference (TP_META ((workbook [raw_of 1 10 0 5 5 50] [raw_of 1 12 10 5 5 50])\<lparr>MP_META := no_meta\<rparr>)) = None
   \<and> Height_Reference (TOWER_META ((workbook [raw_of 1 10 0 5 5 50] [raw_of 1 12 10 5 5 50])\<lparr>MP_META := no_meta\<rparr>)) = None
   \<and> assemble_structure ((workbook [raw_of 1 10 0 5 5 50] [raw_of 1 12 10 5 5 50])\<lparr>MP_META := no_meta\<rparr>) 7850 ''''
     = ([MessageBox NoRNASelected], Raised IndexError)"
proof -
  define inp where "inp = (workbook [raw_of 1 10 0 5 5 50] [raw_of 1 12 10 5 5 50])\<lparr>MP_META := no_meta\<rparr>"
  have q: "quality_checks inp
     = Inr ([], [row_of None (Some 1) 10 0 5 5 50], [row_of None (Some 1) 12 10 5 5 50],
            [row_of None (Some 1) 100 0 4 4 30])"
    by (simp add: inp_def workbook_def raw_of_def row_of_def quality_checks_def
        check_convert_structure_def valid_data_def cells_def astype_float_def)
  have r: "rna_selection inp '''' [] = Inr [MessageBox NoRNASelected]"
    by (simp add: rna_selection_def)
  have h: "Height_Reference (MP_META inp) = None" "Height_Reference (TP_META inp) = None"
    "Height_Reference (TOWER_META inp) = None"
    by (simp_all add: inp_def workbook_def no_meta_def)
  from height_reference_all_none_raises[OF q r h, of 7850] q r h
  show ?thesis unfolding inp_def by simp
qed

subsection \<open>The MP/TP connection: gap\<close>

lemma quality_checks_no_write:
  "quality_checks inp = Inr (ev, mp, tp, tower) \<Longrightarrow> filter is_write ev = []"
  by (auto simp: quality_checks_def Let_def filter_empty_conv split: prod.splits if_splits sum.splits)

text \<open>The only table written before the MP/TP connection is checked is the RNA table.\<close>

lemma prepare_writes:
  assumes "prepare inp RNA_config = Inr (ev, smeta, mp, tp, tower)"
  shows "filter is_write ev =
           (if RNA_config = '''' then []
            else [Write_RNA (filter (\<lambda>r. fst r = RNA_config) (RNA_DATA inp))])"
proof -
  from assms obtain ev1 mp0 tp0 tower0 ev2 smeta1 where
    q: "quality_checks inp = Inr (ev1, mp0, tp0, tower0)"
    and r: "rna_selection inp RNA_config ev1 = Inr ev2"
    and h: "height_reference_handling inp ev2 (map (\<lambda>(p, v). (p, Blank)) (STRUCTURE_META inp))
              = Inr (ev, smeta1)"
    by (auto simp: prepare_def split: sum.splits prod.splits)
  have 1: "filter is_write ev1 = []" using q by (rule quality_checks_no_write)
  have 2: "filter is_write ev2 = (if RNA_config = '''' then []
            else [Write_RNA (filter (\<lambda>r. fst r = RNA_config) (RNA_DATA inp))])"
    using r 1 by (auto simp: rna_selection_def split: if_splits)
  have 3: "filter is_write ev = filter is_write ev2"
    using h by (auto simp: height_reference_handling_def Let_def split: if_splits list.splits)
  show ?thesis using 2 3 by simp
qed

lemma prepare_gap_rna_workbook:
  "prepare (workbook [raw_of 1 10 0 5 5 50] [raw_of 1 14 12 5 5 50]) ''R1''
    = Inr ([Write_RNA [(''R1'', [])], MessageBox (HeightRefSame (Some ''LAT'') None None)],
           [(''Height Reference'', Text ''LAT''), (''Seabed level'', Number (- 30))],
           [row_of (Some ''MP'') (Some 1) 10 0 5 5 50],
           [row_of (Some ''TP'') (Some 1) 14 12 5 5 50],
           [row_of (Some ''TOWER'') (Some 1) 100 0 4 4 30])"
  by (simp add: workbook_def no_meta_def raw_of_def row_of_def prepare_defs)

text \<open>
  Claim C4 as stated fails: with MP top 10 below TP bottom 12 and the RNA \<^verbatim>\<open>R1\<close> selected,
  the run reports the gap of 2 and returns, but it has written a table, the RNA table on the
  overview sheet, before the connection is checked.
\<close>

theorem gap_run_writes_RNA_table:
  "assemble_structure (workbook [raw_of 1 10 0 5 5 50] [raw_of 1 14 12 5 5 50]) 7850 ''R1''
     = ([Write_RNA [(''R1'', [])], MessageBox (HeightRefSame (Some ''LAT'') None None),
         MessageBox (Gap 10 12 2)], Returned)
   \<and> list_ex is_write
        (fst (assemble_structure (workbook [raw_of 1 10 0 5 5 50] [raw_of 1 14 12 5 5 50]) 7850 ''R1''))"
  by (simp add: assemble_structure_def prepare_gap_rna_workbook junction_def row_of_def Let_def)

text \<open>
  Claim C4, amended. When a run reaches the check of the MP/TP connection (the stages before
  it hand on their events \<open>ev\<close> and the non-empty MP and TP tables) and the MP top is strictly
  below the TP bottom, the run ends there: it shows the message with the gap
  \<open>TP_bot - MP_top\<close> and returns. None of the tables \<^verbatim>\<open>WHOLE_STRUCTURE\<close>,
  \<^verbatim>\<open>SKIRT\<close>, \<^verbatim>\<open>SKIRT_POINTMASS\<close>, \<^verbatim>\<open>ALL_ADDED_MASSES\<close>,
  \<^verbatim>\<open>STRUCTURE_META\<close> is written; the only table written is the RNA table, when an RNA
  is selected.
\<close>

theorem gap_aborts:
  assumes "prepare inp RNA_config = Inr (ev, smeta, mp, tp, tower)"
    and "mp \<noteq> []" and "tp \<noteq> []"
    and "Top (hd mp) < Bottom (last tp)"
  shows "assemble_structure inp rho RNA_config
           = (ev @ [MessageBox (Gap (Top (hd mp)) (Bottom (last tp)) (Bottom (last tp) - Top (hd mp)))],
              Returned)
       \<and> filter is_write ev =
           (if RNA_config = '''' then []
            else [Write_RNA (filter (\<lambda>r. fst r = RNA_config) (RNA_DATA inp))])"
proof -
  obtain m ms where mp: "mp = m # ms" using assms(2) by (cases mp) auto
  obtain p ps where tp: "tp = p # ps" using assms(3) by (cases tp) auto
  have "junction rho (answer_overlap inp) ev mp tp
      = Inl (ev @ [MessageBox (Gap (Top (hd mp)) (Bottom (last tp)) (Bottom (last tp) - Top (hd mp)))],
             Returned)"
    using assms(4) unfolding mp tp by (simp add: junction_def Let_def)
  then show ?thesis
    using assms(1) prepare_writes[OF assms(1)] by (simp add: assemble_structure_def)
qed

theorem gap_aborts_witness:
  "prepare (workbook [raw_of 1 10 0 5 5 50] [raw_of 1 14 12 5 5 50]) ''''
    = Inr ([MessageBox NoRNASelected, MessageBox (HeightRefSame (Some ''LAT'') None None)],
           [(''Height Reference'', Text ''LAT''), (''Seabed level'', Number (- 30))],
           [row_of (Some ''MP'') (Some 1) 10 0 5 5 50],
           [row_of (Some ''TP'') (Some 1) 14 12 5 5 50],
           [row_of (Some ''TOWER'') (Some 1) 100 0 4 4 30])
   \<and> [row_of (Some ''MP'') (Some 1) 10 0 5 5 50] \<noteq> []
   \<and> [row_of (Some ''TP'') (Some 1) 14 12 5 5 50] \<noteq> []
   \<and> Top (hd [row_of (Some ''MP'') (Some 1) 10 0 5 5 50])
       < Bottom (last [row_of (Some ''TP'') (Some 1) 14 12 5 5 50])
   \<and> assemble_structure (workbook [raw_of 1 10 0 5 5 50] [raw_of 1 14 12 5 5 50]) 7850 ''''
     = ([MessageBox NoRNASelected, MessageBox (HeightRefSame (Some ''LAT'') None None),
         MessageBox (Gap 10 12 2)], Returned)
   \<and> filter is_write [MessageBox NoRNASelected, MessageBox (HeightRefSame (Some ''LAT'') None None)]
     = []"
proof -
  have p: "prepare (workbook [raw_of 1 10 0 5 5 50] [raw_of 1 14 12 5 5 50]) ''''
    = Inr ([MessageBox NoRNASelected, MessageBox (HeightRefSame (Some ''LAT'') None None)],
           [(''Height Reference'', Text ''LAT''), (''Seabed level'', Number (- 30))],
           [row_of (Some ''MP'') (Some 1) 10 0 5 5 50],
           [row_of (Some ''TP'') (Some 1) 14 12 5 5 50],
           [row_of (Some ''TOWER'') (Some 1) 100 0 4 4 30])"
    by (simp add: workbook_def no_meta_def raw_of_def row_of_def prepare_defs)
  have lt: "Top (hd [row_of (Some ''MP'') (Some 1) 10 0 5 5 50])
       < Bottom (last [row_of (Some ''TP'') (Some 1) 14 12 5 5 50])"
    by (simp add: row_of_def)
  from gap_aborts[OF p _ _ lt, of 7850] p lt
  show ?thesis by (simp add: row_of_def)
qed

subsection \<open>The MP/TP connection: overlap resolved as a skirt\<close>

lemma those_map_None:
  "those (map f xs) = None \<longleftrightarrow> list_ex (\<lambda>x. f x = None) xs"
  by (induction xs) (auto split: option.splits)

lemma those_map_Some:
  "those (map f xs) = Some ys \<Longrightarrow> ys = map (\<lambda>x. the (f x)) xs"
  by (induction xs arbitrary: ys) (auto split: option.splits)

lemma sum_zip_map:
  "sum_list (map (\<lambda>(m, h). m * h) (zip (map w xs) (map c xs))) = (\<Sum>x\<leftarrow>xs. w x * c x)"
  for w c :: "'a \<Rightarrow> real"
  by (induction xs) auto

lemma skirt_pointmass_nonempty:
  assumes "SKIRT \<noteq> []"
  shows "skirt_pointmass rho SKIRT =
     Inr \<lparr>pm_Affiliation = ''SKIRT'',
          Elevation =
            (if list_ex (\<lambda>s. center_of_mass_hollow_frustum (D_bottom s) (D_top s) (Bottom s) (Top s) (t_mm s / 1000) = None) SKIRT
                \<or> (\<Sum>s\<leftarrow>SKIRT. calc_weight rho (t_mm s / 1000) (Top s) (Bottom s) (D_top s) (D_bottom s) / 1000) = 0
             then None
             else Some ((\<Sum>s\<leftarrow>SKIRT. calc_weight rho (t_mm s / 1000) (Top s) (Bottom s) (D_top s) (D_bottom s) / 1000
                              * the (center_of_mass_hollow_frustum (D_bottom s) (D_top s) (Bottom s) (Top s) (t_mm s / 1000)))
                        / (\<Sum>s\<leftarrow>SKIRT. calc_weight rho (t_mm s / 1000) (Top s) (Bottom s) (D_top s) (D_bottom s) / 1000))),
          pm_Mass = (\<Sum>s\<leftarrow>SKIRT. calc_weight rho (t_mm s / 1000) (Top s) (Bottom s) (D_top s) (D_bottom s) / 1000),
          pm_comment = ''Skirt''\<rparr>"
proof (cases "those (skirt_heihgts SKIRT)")
  case None
  then have "list_ex (\<lambda>s. center_of_mass_hollow_frustum (D_bottom s) (D_top s) (Bottom s) (Top s) (t_mm s / 1000) = None) SKIRT"
    by (simp add: skirt_heihgts_def those_map_None)
  then show ?thesis using assms None
    by (simp add: skirt_pointmass_def Let_def skirt_weights_def)
next
  case (Some hs)
  then have hs: "hs = map (\<lambda>s. the (center_of_mass_hollow_frustum (D_bottom s) (D_top s) (Bottom s) (Top s) (t_mm s / 1000))) SKIRT"
    unfolding skirt_heihgts_def by (rule those_map_Some)
  have no: "\<not> list_ex (\<lambda>s. center_of_mass_hollow_frustum (D_bottom s) (D_top s) (Bottom s) (Top s) (t_mm s / 1000) = None) SKIRT"
    using Some those_map_None[of "\<lambda>s. center_of_mass_hollow_frustum (D_bottom s) (D_top s) (Bottom s) (Top s) (t_mm s / 1000)" SKIRT]
    by (simp add: skirt_heihgts_def)
  show ?thesis using assms Some no
    by (simp add: skirt_pointmass_def Let_def skirt_weights_def hs sum_zip_map)
qed

text \<open>
  Claim C5. In the overlap branch (\<open>MP_top > TP_bot\<close>) with the skirt answer, let \<open>tp'\<close>
  be the TP table that \<^verbatim>\<open>add_element\<close> returns for the elevation \<open>MP_top\<close>, and let
  its rows with \<open>Top \<le> MP_top\<close> be at least one. Then the SKIRT table written is exactly
  those rows (affiliation SKIRT, section column dropped), the TP rows that go into the
  whole structure are exactly the rows of \<open>tp'\<close> with \<open>Bottom \<ge> MP_top\<close>, on top of the MP,
  and the single point mass written has as its mass the sum of the weights of the skirt
  segments and as its elevation the quotient \<open>\<Sum> m\<^sub>i z\<^sub>i / \<Sum> m\<^sub>i\<close> over their centres of
  mass \<open>z\<^sub>i\<close> (where a centre of mass or the quotient is not a finite number, the
  elevation is none either).
\<close>

theorem skirt_extraction:
  assumes "Bottom (last tp) < Top m" and "tp \<noteq> []" and "answer \<noteq> ''Yes''"
    and "add_element tp (Top m) = (printed, tp')"
    and "filter (\<lambda>r. Top r \<le> Top m) tp' \<noteq> []"
  shows "\<exists>SKIRT pm.
      junction rho answer ev (m # ms) tp
        = Inr (ev @ [MessageBox (Overlap (- Bottom (last tp) + Top m))] @ map Print printed
                  @ [Write_SKIRT SKIRT, Write_SKIRT_POINTMASS pm],
               filter (\<lambda>r. Top m \<le> Bottom r) tp' @ m # ms)
    \<and> SKIRT = map (\<lambda>r. seg.truncate (r\<lparr>Affiliation := Some ''SKIRT''\<rparr>))
                  (filter (\<lambda>r. Top r \<le> Top m) tp')
    \<and> pm_Mass pm
        = (\<Sum>s\<leftarrow>SKIRT. calc_weight rho (t_mm s / 1000) (Top s) (Bottom s) (D_top s) (D_bottom s) / 1000)
    \<and> Elevation pm
        = (if list_ex (\<lambda>s. center_of_mass_hollow_frustum (D_bottom s) (D_top s) (Bottom s) (Top s)
                              (t_mm s / 1000) = None) SKIRT
              \<or> (\<Sum>s\<leftarrow>SKIRT. calc_weight rho (t_mm s / 1000) (Top s) (Bottom s) (D_top s) (D_bottom s) / 1000) = 0
           then None
           else Some ((\<Sum>s\<leftarrow>SKIRT. calc_weight rho (t_mm s / 1000) (Top s) (Bottom s) (D_top s) (D_bottom s) / 1000
                            * the (center_of_mass_hollow_frustum (D_bottom s) (D_top s) (Bottom s) (Top s)
                                     (t_mm s / 1000)))
                      / (\<Sum>s\<leftarrow>SKIRT. calc_weight rho (t_mm s / 1000) (Top s) (Bottom s) (D_top s) (D_bottom s) / 1000)))"
proof -
  define SKIRT where "SKIRT = skirt_table tp' (Top m)"
  have ne: "SKIRT \<noteq> []" using assms(5) by (simp add: SKIRT_def skirt_table_def)
  obtain p ps where tp: "tp = p # ps" using assms(2) by (cases tp) auto
  note pm = skirt_pointmass_nonempty[OF ne, of rho]
  have j: "junction rho answer ev (m # ms) tp
        = Inr (ev @ [MessageBox (Overlap (- Bottom (last tp) + Top m))] @ map Print printed
                  @ [Write_SKIRT SKIRT, Write_SKIRT_POINTMASS (projr (skirt_pointmass rho SKIRT))],
               filter (\<lambda>r. Top m \<le> Bottom r) tp' @ m # ms)"
    using assms(1,3,4) unfolding tp
    by (simp add: junction_def Let_def SKIRT_def[symmetric] pm)
  have s: "SKIRT = map (\<lambda>r. seg.truncate (r\<lparr>Affiliation := Some ''SKIRT''\<rparr>))
                  (filter (\<lambda>r. Top r \<le> Top m) tp')"
    by (simp add: SKIRT_def skirt_table_def)
  show ?thesis
    apply (rule exI[of _ SKIRT])
    apply (rule exI[of _ "projr (skirt_pointmass rho SKIRT)"])
    apply (intro conjI)
       apply (rule j)
      apply (rule s)
     apply (simp add: pm)
    apply (simp add: pm)
    done
qed

lemma scenario_cut: "add_element scenario_TP (Top scenario_MP) = ([], scenario_TP_cut)"
  by (simp add: add_element_def scenario_TP_def scenario_MP_def scenario_TP_cut_def row_of_def Let_def)

theorem skirt_extraction_witness:
  "Bottom (last scenario_TP) < Top scenario_MP \<and> scenario_TP \<noteq> [] \<and> ''No'' \<noteq> ''Yes''
   \<and> add_element scenario_TP (Top scenario_MP) = ([], scenario_TP_cut)
   \<and> filter (\<lambda>r. Top r \<le> Top scenario_MP) scenario_TP_cut \<noteq> []
   \<and> (\<exists>SKIRT pm.
        junction 7850 ''No'' [] [scenario_MP] scenario_TP
          = Inr ([MessageBox (Overlap 2), Write_SKIRT SKIRT, Write_SKIRT_POINTMASS pm],
                 [row_of (Some ''TP'') (Some 1) 12 10 5 5 50, scenario_MP])
      \<and> SKIRT = [\<lparr>Affiliation = Some ''SKIRT'', Top = 10, Bottom = 8, D_top = 5, D_bottom = 5, t_mm = 50\<rparr>]
      \<and> pm_Mass pm = calc_weight 7850 (50 / 1000) 10 8 5 5 / 1000
      \<and> Elevation pm = Some 9)"
proof -
  have h1: "Bottom (last scenario_TP) < Top scenario_MP"
    by (simp add: scenario_TP_def scenario_MP_def row_of_def)
  have h2: "scenario_TP \<noteq> []" by (simp add: scenario_TP_def)
  have h3: "''No'' \<noteq> ''Yes''" by simp
  have h5: "filter (\<lambda>r. Top r \<le> Top scenario_MP) scenario_TP_cut \<noteq> []"
    by (simp add: scenario_TP_cut_def scenario_MP_def row_of_def)
  have c: "center_of_mass_hollow_frustum 5 5 8 10 (50 / 1000) = Some 9"
    by (subst com_closed) simp_all
  have w: "calc_weight 7850 (50 / 1000) 10 8 5 5 \<noteq> 0"
    by (simp add: calc_weight_closed)
  have sel: "Top scenario_MP = 10" "Bottom (last scenario_TP) = 8"
    by (simp_all add: scenario_MP_def scenario_TP_def row_of_def)
  have f1: "filter (\<lambda>r. Top r \<le> 10) scenario_TP_cut = [row_of (Some ''TP'') None 10 8 5 5 50]"
    by (simp add: scenario_TP_cut_def row_of_def)
  have f2: "filter (\<lambda>r. 10 \<le> Bottom r) scenario_TP_cut = [row_of (Some ''TP'') (Some 1) 12 10 5 5 50]"
    by (simp add: scenario_TP_cut_def row_of_def)
  have t: "seg.truncate ((row_of (Some ''TP'') None 10 8 5 5 50)\<lparr>Affiliation := Some ''SKIRT''\<rparr>)
      = \<lparr>Affiliation = Some ''SKIRT'', Top = 10, Bottom = 8, D_top = 5, D_bottom = 5, t_mm = 50\<rparr>"
    by (simp add: row_of_def seg.truncate_def)
  from skirt_extraction[OF h1 h2 h3 scenario_cut h5, of 7850 "[]" "[]"]
  have "\<exists>SKIRT pm.
        junction 7850 ''No'' [] [scenario_MP] scenario_TP
          = Inr ([MessageBox (Overlap 2), Write_SKIRT SKIRT, Write_SKIRT_POINTMASS pm],
                 [row_of (Some ''TP'') (Some 1) 12 10 5 5 50, scenario_MP])
      \<and> SKIRT = [\<lparr>Affiliation = Some ''SKIRT'', Top = 10, Bottom = 8, D_top = 5, D_bottom = 5, t_mm = 50\<rparr>]
      \<and> pm_Mass pm = calc_weight 7850 (50 / 1000) 10 8 5 5 / 1000
      \<and> Elevation pm = Some 9"
    unfolding sel f1 f2 using c w by (simp add: t)
  with h1 h2 h3 scenario_cut h5 show ?thesis by blast
qed


subsection \<open>The assembled structure and its section numbers\<close>



















lemma top_to_bottom_same_elevations:
  "map Top xs = map Top ys \<Longrightarrow> map Bottom xs = map Bottom ys \<Longrightarrow> top_to_bottom xs = top_to_bottom ys"
proof -
  assume a: "map Top xs = map Top ys" "map Bottom xs = map Bottom ys"
  have "map (\<lambda>r. (Top r, Bottom r)) xs = zip (map Top xs) (map Bottom xs)" for xs :: "'c seg_scheme list"
    by (induction xs) auto
  then have "map (\<lambda>r. (Top r, Bottom r)) xs = map (\<lambda>r. (Top r, Bottom r)) ys"
    using a by (metis zip_map_fst_snd map_fst_zip)
  then show ?thesis by (simp add: top_to_bottom_def)
qed

















section \<open>Replacing a database entry\<close>




end
